theory Spec2Isabelle
  imports Complex_Main "HOL-Library.AList" "HOL-Library.Word"
begin

section \<open>Python values and errors\<close>

text \<open>
  The development follows \<^verbatim>\<open>comfy_trt/model_manager.py\<close> (the registry of compiled
  engines and the shape matcher) and the weight-refit part of
  \<^verbatim>\<open>comfy_trt/utilities.py\<close>. Every exception the Python code can raise on the paths
  modelled here is a value of \<open>py_error\<close>; a function that may raise returns
  \<open>py_error + 'a\<close> with \<open>Inl\<close> for the exception.
\<close>

datatype py_error =
  KeyError | TypeError | ValueError | IndexError | AttributeError
  | RuntimeError | AssertionError | FileNotFoundError

text \<open>Subscription \<^verbatim>\<open>xs[i]\<close> of a Python list by a non-negative literal index.\<close>

definition getitem :: "'a list \<Rightarrow> nat \<Rightarrow> py_error + 'a" where
  "getitem xs i = (if i < length xs then Inr (xs ! i) else Inl IndexError)"

text \<open>\<^verbatim>\<open>s.endswith(suf)\<close> on strings.\<close>

definition endswith :: "string \<Rightarrow> string \<Rightarrow> bool" where
  "endswith s suf \<longleftrightarrow> length suf \<le> length s \<and> drop (length s - length suf) s = suf"

section \<open>ModelConfig and the shape matcher\<close>

text \<open>
  A shape is a list of integers. The \<^verbatim>\<open>profile\<close> attribute is annotated as a dict from
  input names to \<^verbatim>\<open>[min, opt, max]\<close>; \<^verbatim>\<open>add_lora_entry\<close> stores the list
  \<^verbatim>\<open>[[], [], []]\<close> there instead, so both forms are values of the type.
\<close>

type_synonym shape = "int list"

datatype profile_t =
  ProfileDict "(string \<times> shape list) list"
  | ProfileList "shape list"

record ModelConfig =
  profile :: profile_t
  static_shapes :: bool
  fp32 :: bool
  baseline_model :: string
  inpaint :: bool
  refit :: bool
  lora :: bool
  vram :: int
  unet_hidden_dim :: int

text \<open>
  \<^verbatim>\<open>self.profile[k]\<close> with a string key: a dict raises KeyError for a missing key, a
  list raises TypeError (list indices must be integers).
\<close>

fun profile_getitem :: "profile_t \<Rightarrow> string \<Rightarrow> py_error + shape list" where
  "profile_getitem (ProfileDict kvs) k =
     (case map_of kvs k of None \<Rightarrow> Inl KeyError | Some t \<Rightarrow> Inr t)"
| "profile_getitem (ProfileList xs) k = Inl TypeError"

text \<open>\<^verbatim>\<open>_min, _opt, _max = t\<close>: unpacking raises ValueError unless there are three items.\<close>

fun unpack3 :: "'a list \<Rightarrow> py_error + ('a \<times> 'a \<times> 'a)" where
  "unpack3 [a, b, c] = Inr (a, b, c)"
| "unpack3 xs = Inl ValueError"

text \<open>
  \<^verbatim>\<open>torch.Tensor(xs) - torch.Tensor(ys)\<close> on one-dimensional tensors. Sizes must agree
  unless one of them is 1, which is broadcast; otherwise torch raises RuntimeError.
  The float32 entries are modelled as exact rationals: the values are integers and
  quarter-integers, which float32 represents exactly below \<open>2 ^ 22\<close>.
\<close>

definition tensor_sub :: "rat list \<Rightarrow> rat list \<Rightarrow> py_error + rat list" where
  "tensor_sub xs ys =
     (if length xs = length ys then Inr (map2 (-) xs ys)
      else if length xs = 1 then Inr (map (\<lambda>y. hd xs - y) ys)
      else if length ys = 1 then Inr (map (\<lambda>x. x - hd ys) xs)
      else Inl RuntimeError)"

definition to_tensor :: "shape \<Rightarrow> rat list" where
  "to_tensor v = map of_int v"

text \<open>
  \<^verbatim>\<open>is_compatible_from_dict\<close>: the loop over \<^verbatim>\<open>feed_dict.items()\<close>, with the running
  \<^verbatim>\<open>distance\<close> as accumulator. The request maps each input name to the shape of the
  tensor passed for it.
\<close>

fun from_dict_loop :: "ModelConfig \<Rightarrow> (string \<times> shape) list \<Rightarrow> rat \<Rightarrow> py_error + (bool \<times> rat)" where
  "from_dict_loop c [] distance = Inr (True, distance)"
| "from_dict_loop c ((k, v) # rest) distance =
     (case profile_getitem (profile c) k of Inl e \<Rightarrow> Inl e | Inr t \<Rightarrow>
     (case unpack3 t of Inl e \<Rightarrow> Inl e | Inr (mn, opt, mx) \<Rightarrow>
     (case tensor_sub (to_tensor mx) (to_tensor v) of Inl e \<Rightarrow> Inl e | Inr r_min \<Rightarrow>
     (case tensor_sub (to_tensor opt) (to_tensor v) of Inl e \<Rightarrow> Inl e | Inr d_opt \<Rightarrow>
     (case tensor_sub (to_tensor v) (to_tensor mn) of Inl e \<Rightarrow> Inl e | Inr r_max \<Rightarrow>
        if list_ex (\<lambda>x. x < 0) r_min \<or> list_ex (\<lambda>x. x < 0) r_max then Inr (False, distance)
        else from_dict_loop c rest
               (distance + (sum_list (map abs d_opt)
                  + (1 / 2) * (sum_list r_max + (1 / 2) * sum_list r_min))))))))"

definition is_compatible_from_dict :: "ModelConfig \<Rightarrow> (string \<times> shape) list \<Rightarrow> py_error + (bool \<times> rat)" where
  "is_compatible_from_dict c feed_dict = from_dict_loop c feed_dict 0"

text \<open>
  The rejection test of \<^verbatim>\<open>is_compatible\<close> is a chain of \<^verbatim>\<open>or\<close>: the operands are
  evaluated left to right and evaluation stops at the first true one, so an index that
  is out of range raises only when it is reached.
\<close>

fun or_chain :: "(py_error + bool) list \<Rightarrow> py_error + bool" where
  "or_chain [] = Inr False"
| "or_chain (Inl e # rest) = Inl e"
| "or_chain (Inr b # rest) = (if b then Inr True else or_chain rest)"

definition item_gt :: "int list \<Rightarrow> nat \<Rightarrow> int \<Rightarrow> py_error + bool" where
  "item_gt xs i y = (case getitem xs i of Inl e \<Rightarrow> Inl e | Inr x \<Rightarrow> Inr (x > y))"

definition item_lt :: "int list \<Rightarrow> nat \<Rightarrow> int \<Rightarrow> py_error + bool" where
  "item_lt xs i y = (case getitem xs i of Inl e \<Rightarrow> Inl e | Inr x \<Rightarrow> Inr (x < y))"

definition is_compatible :: "ModelConfig \<Rightarrow> int \<Rightarrow> int \<Rightarrow> int \<Rightarrow> int \<Rightarrow> py_error + (bool \<times> rat)" where
  "is_compatible c width0 height0 batch_size0 max_embedding =
     (case profile_getitem (profile c) ''sample'' of Inl e \<Rightarrow> Inl e | Inr sample \<Rightarrow>
     (case profile_getitem (profile c) ''encoder_hidden_states'' of Inl e \<Rightarrow> Inl e | Inr embedding \<Rightarrow>
      let batch_size = batch_size0 * 2;
          width = width0 div 8;
          height = height0 div 8
      in
     (case unpack3 sample of Inl e \<Rightarrow> Inl e | Inr (mn, opt, mx) \<Rightarrow>
     (case unpack3 embedding of Inl e \<Rightarrow> Inl e | Inr (mn_em, opt_em, mx_em) \<Rightarrow>
     (case or_chain
             [item_gt mn 0 batch_size, item_lt mx 0 batch_size,
              item_gt mn 2 height, item_lt mx 2 height,
              item_gt mn 3 width, item_lt mx 3 width,
              item_gt mn_em 1 max_embedding, item_lt mx_em 1 max_embedding] of
        Inl e \<Rightarrow> Inl e
      | Inr rejected \<Rightarrow>
          if rejected then Inr (False, 0)
          else
          (case getitem opt 0 of Inl e \<Rightarrow> Inl e | Inr o0 \<Rightarrow>
          (case getitem opt 2 of Inl e \<Rightarrow> Inl e | Inr o2 \<Rightarrow>
          (case getitem opt 3 of Inl e \<Rightarrow> Inl e | Inr o3 \<Rightarrow>
          (case getitem mx 2 of Inl e \<Rightarrow> Inl e | Inr m2 \<Rightarrow>
          (case getitem mx 3 of Inl e \<Rightarrow> Inl e | Inr m3 \<Rightarrow>
             Inr (True,
               of_int (\<bar>o0 - batch_size\<bar> + \<bar>o2 - height\<bar> + \<bar>o3 - width\<bar>)
               + (1 / 2) * of_int (\<bar>m2 - height\<bar> + \<bar>m3 - width\<bar>))))))))))))"

section \<open>The registry and its file\<close>

text \<open>
  A registry entry is the dict \<^verbatim>\<open>{"filepath": ..., "config": ...}\<close>, with a
  \<^verbatim>\<open>"base_model"\<close> key on adapter entries. Python dicts keep insertion order, so the
  two levels of the registry are association lists: assignment to a key replaces in
  place or appends (\<open>AList.update\<close>), \<^verbatim>\<open>pop\<close> is \<open>AList.delete\<close>.
\<close>

record entry =
  filepath :: string
  base_model :: "string option"
  config :: ModelConfig

type_synonym registry = "(string \<times> (string \<times> entry list) list) list"

text \<open>
  The document stored in the model file. \<^verbatim>\<open>json.dump\<close> followed by \<^verbatim>\<open>json.load\<close> is
  taken as the identity on such documents; the text of the file is not modelled.
\<close>

datatype json =
  JNull | JBool bool | JInt int | JStr string
  | JList "json list" | JObj "(string \<times> json) list"

text \<open>
  The manager: its registry, its compute-capability tag \<^verbatim>\<open>self.cc\<close>, and the content
  of the file named by \<^verbatim>\<open>self.model_file\<close> (\<open>None\<close> while the file does not exist).
\<close>

record ModelManager =
  all_models :: registry
  cc :: string
  model_file :: "json option"

subsection \<open>Writing\<close>

definition shape_json :: "shape \<Rightarrow> json" where
  "shape_json v = JList (map JInt v)"

fun profile_json :: "profile_t \<Rightarrow> json" where
  "profile_json (ProfileDict kvs) = JObj (map (\<lambda>(k, t). (k, JList (map shape_json t))) kvs)"
| "profile_json (ProfileList xs) = JList (map shape_json xs)"

text \<open>\<^verbatim>\<open>ModelConfigEncoder.default\<close> returns \<^verbatim>\<open>o.__dict__\<close>: the fields in declaration order.\<close>

definition ModelConfigEncoder_default :: "ModelConfig \<Rightarrow> json" where
  "ModelConfigEncoder_default c = JObj
     [(''profile'', profile_json (profile c)),
      (''static_shapes'', JBool (static_shapes c)),
      (''fp32'', JBool (fp32 c)),
      (''baseline_model'', JStr (baseline_model c)),
      (''inpaint'', JBool (inpaint c)),
      (''refit'', JBool (refit c)),
      (''lora'', JBool (lora c)),
      (''vram'', JInt (vram c)),
      (''unet_hidden_dim'', JInt (unet_hidden_dim c))]"

definition entry_json :: "entry \<Rightarrow> json" where
  "entry_json e = JObj
     ([(''filepath'', JStr (filepath e))]
      @ (case base_model e of None \<Rightarrow> [] | Some b \<Rightarrow> [(''base_model'', JStr b)])
      @ [(''config'', ModelConfigEncoder_default (config e))])"

definition registry_json :: "registry \<Rightarrow> json" where
  "registry_json reg =
     JObj (map (\<lambda>(tag, base_models).
             (tag, JObj (map (\<lambda>(b, models). (b, JList (map entry_json models))) base_models)))
           reg)"

definition write_json :: "ModelManager \<Rightarrow> ModelManager" where
  "write_json st = st\<lparr>model_file := Some (registry_json (all_models st))\<rparr>"

subsection \<open>Reading\<close>

text \<open>
  \<^verbatim>\<open>read_json\<close> walks the loaded document and replaces every \<^verbatim>\<open>"config"\<close> value by
  \<^verbatim>\<open>ModelConfig(**value)\<close>. The registry of the model is typed, so the walk also
  converts each value to the type of its place; a document whose values do not have
  these types has no counterpart in the model and is reported as TypeError.
\<close>

fun sequence_err :: "(py_error + 'a) list \<Rightarrow> py_error + 'a list" where
  "sequence_err [] = Inr []"
| "sequence_err (Inl e # rest) = Inl e"
| "sequence_err (Inr x # rest) =
     (case sequence_err rest of Inl e \<Rightarrow> Inl e | Inr xs \<Rightarrow> Inr (x # xs))"

fun as_int :: "json \<Rightarrow> py_error + int" where
  "as_int (JInt n) = Inr n"
| "as_int j = Inl TypeError"

fun as_bool :: "json \<Rightarrow> py_error + bool" where
  "as_bool (JBool b) = Inr b"
| "as_bool j = Inl TypeError"

fun as_str :: "json \<Rightarrow> py_error + string" where
  "as_str (JStr s) = Inr s"
| "as_str j = Inl TypeError"

fun as_shape :: "json \<Rightarrow> py_error + shape" where
  "as_shape (JList xs) = sequence_err (map as_int xs)"
| "as_shape j = Inl TypeError"

fun as_shapes :: "json \<Rightarrow> py_error + shape list" where
  "as_shapes (JList xs) = sequence_err (map as_shape xs)"
| "as_shapes j = Inl TypeError"

definition as_profile_item :: "string \<times> json \<Rightarrow> py_error + (string \<times> shape list)" where
  "as_profile_item kj =
     (case as_shapes (snd kj) of Inl e \<Rightarrow> Inl e | Inr t \<Rightarrow> Inr (fst kj, t))"

fun as_profile :: "json \<Rightarrow> py_error + profile_t" where
  "as_profile (JObj kvs) =
     (case sequence_err (map as_profile_item kvs) of
        Inl e \<Rightarrow> Inl e | Inr kts \<Rightarrow> Inr (ProfileDict kts))"
| "as_profile (JList xs) =
     (case sequence_err (map as_shape xs) of
        Inl e \<Rightarrow> Inl e | Inr ss \<Rightarrow> Inr (ProfileList ss))"
| "as_profile j = Inl TypeError"

definition required_fields :: "string list" where
  "required_fields =
     [''profile'', ''static_shapes'', ''fp32'', ''baseline_model'', ''inpaint'',
      ''refit'', ''lora'', ''vram'']"

text \<open>A keyword argument of the dataclass constructor, converted by \<open>conv\<close>.\<close>

definition kwarg :: "(string \<times> json) list \<Rightarrow> string \<Rightarrow> (json \<Rightarrow> py_error + 'a) \<Rightarrow> py_error + 'a" where
  "kwarg kvs k conv = (case map_of kvs k of None \<Rightarrow> Inl TypeError | Some j \<Rightarrow> conv j)"

text \<open>
  \<^verbatim>\<open>ModelConfig(**d)\<close>: TypeError for a keyword that is not a field and for a missing
  field without default; \<^verbatim>\<open>unet_hidden_dim\<close> defaults to 4.
\<close>

definition build_config :: "(string \<times> json) list \<Rightarrow> py_error + ModelConfig" where
  "build_config kvs =
     (case kwarg kvs ''profile'' as_profile of Inl e \<Rightarrow> Inl e | Inr p \<Rightarrow>
     (case kwarg kvs ''static_shapes'' as_bool of Inl e \<Rightarrow> Inl e | Inr ss \<Rightarrow>
     (case kwarg kvs ''fp32'' as_bool of Inl e \<Rightarrow> Inl e | Inr f \<Rightarrow>
     (case kwarg kvs ''baseline_model'' as_str of Inl e \<Rightarrow> Inl e | Inr bm \<Rightarrow>
     (case kwarg kvs ''inpaint'' as_bool of Inl e \<Rightarrow> Inl e | Inr ip \<Rightarrow>
     (case kwarg kvs ''refit'' as_bool of Inl e \<Rightarrow> Inl e | Inr rf \<Rightarrow>
     (case kwarg kvs ''lora'' as_bool of Inl e \<Rightarrow> Inl e | Inr lr \<Rightarrow>
     (case kwarg kvs ''vram'' as_int of Inl e \<Rightarrow> Inl e | Inr vr \<Rightarrow>
     (case (case map_of kvs ''unet_hidden_dim'' of None \<Rightarrow> Inr 4 | Some j \<Rightarrow> as_int j) of
        Inl e \<Rightarrow> Inl e
      | Inr uhd \<Rightarrow>
          Inr \<lparr>profile = p, static_shapes = ss, fp32 = f, baseline_model = bm,
               inpaint = ip, refit = rf, lora = lr, vram = vr,
               unet_hidden_dim = uhd\<rparr>)))))))))"

definition ModelConfig_kwargs :: "json \<Rightarrow> py_error + ModelConfig" where
  "ModelConfig_kwargs d =
     (case d of
        JObj kvs \<Rightarrow>
          if \<not> list_all (\<lambda>k. k \<in> set (required_fields @ [''unet_hidden_dim''])) (map fst kvs)
            then Inl TypeError
          else if \<not> list_all (\<lambda>k. k \<in> set (map fst kvs)) required_fields
            then Inl TypeError
          else build_config kvs
      | _ \<Rightarrow> Inl TypeError)"

text \<open>
  One entry: \<^verbatim>\<open>configs[i]["config"]\<close> raises KeyError when the key is missing and
  TypeError when the entry is not a dict.
\<close>

definition read_base_ref :: "(string \<times> json) list \<Rightarrow> py_error + string option" where
  "read_base_ref kvs =
     (case map_of kvs ''base_model'' of
        None \<Rightarrow> Inr None
      | Some j \<Rightarrow> (case as_str j of Inl e \<Rightarrow> Inl e | Inr b \<Rightarrow> Inr (Some b)))"

definition read_entry :: "json \<Rightarrow> py_error + entry" where
  "read_entry j =
     (case j of
        JObj kvs \<Rightarrow>
          (case map_of kvs ''config'' of None \<Rightarrow> Inl KeyError | Some cj \<Rightarrow>
          (case ModelConfig_kwargs cj of Inl e \<Rightarrow> Inl e | Inr c \<Rightarrow>
            if \<not> list_all (\<lambda>k. k \<in> set [''filepath'', ''base_model'', ''config'']) (map fst kvs)
              then Inl TypeError
            else
          (case kwarg kvs ''filepath'' as_str of Inl e \<Rightarrow> Inl e | Inr fp \<Rightarrow>
          (case read_base_ref kvs of Inl e \<Rightarrow> Inl e | Inr bm \<Rightarrow>
             Inr \<lparr>filepath = fp, base_model = bm, config = c\<rparr>))))
      | _ \<Rightarrow> Inl TypeError)"

text \<open>The loop \<^verbatim>\<open>for i in range(len(configs))\<close> over the entries of one base model.\<close>

fun read_configs :: "json \<Rightarrow> py_error + entry list" where
  "read_configs (JList es) = sequence_err (map read_entry es)"
| "read_configs j = Inl TypeError"

definition read_base_model :: "string \<times> json \<Rightarrow> py_error + (string \<times> entry list)" where
  "read_base_model bj =
     (case read_configs (snd bj) of Inl e \<Rightarrow> Inl e | Inr es \<Rightarrow> Inr (fst bj, es))"

text \<open>\<^verbatim>\<open>models.items()\<close> raises AttributeError on anything but a dict.\<close>

fun read_models :: "json \<Rightarrow> py_error + (string \<times> entry list) list" where
  "read_models (JObj kvs) = sequence_err (map read_base_model kvs)"
| "read_models j = Inl AttributeError"

definition read_cc :: "string \<times> json \<Rightarrow> py_error + (string \<times> (string \<times> entry list) list)" where
  "read_cc tj =
     (case read_models (snd tj) of Inl e \<Rightarrow> Inl e | Inr ms \<Rightarrow> Inr (fst tj, ms))"

fun read_document :: "json \<Rightarrow> py_error + registry" where
  "read_document (JObj kvs) = sequence_err (map read_cc kvs)"
| "read_document j = Inl AttributeError"

text \<open>\<^verbatim>\<open>read_json\<close> with \<^verbatim>\<open>encode_config=True\<close>; \<^verbatim>\<open>open\<close> raises when the file is missing.\<close>

definition read_json :: "ModelManager \<Rightarrow> py_error + registry" where
  "read_json st =
     (case model_file st of None \<Rightarrow> Inl FileNotFoundError | Some doc \<Rightarrow> read_document doc)"

section \<open>Registry operations\<close>

text \<open>
  \<^verbatim>\<open>get_trt_path\<close>. The loop that builds \<^verbatim>\<open>profile_hash\<close> still runs, but the line that
  joined it into the file name is commented out in the source, so only what the loop can
  raise is kept: \<^verbatim>\<open>profile.items()\<close> needs a dict and \<^verbatim>\<open>v[i]\<close> needs \<^verbatim>\<open>n_profiles\<close>
  shapes per input. The directory \<^verbatim>\<open>TRT_MODEL_DIR\<close> is a parameter.
\<close>

definition os_path_join :: "string \<Rightarrow> string \<Rightarrow> string" where
  "os_path_join a b =
     (if b \<noteq> [] \<and> hd b = CHR ''/'' then b
      else if a = [] \<or> last a = CHR ''/'' then a @ b
      else a @ ''/'' @ b)"

definition profile_hash_check :: "profile_t \<Rightarrow> bool \<Rightarrow> py_error + unit" where
  "profile_hash_check p static_shape =
     (let n_profiles = (if static_shape then 1 else 3 :: nat) in
      case p of
        ProfileList xs \<Rightarrow> Inl AttributeError
      | ProfileDict kvs \<Rightarrow>
          if list_all (\<lambda>(k, v). n_profiles \<le> length v) kvs then Inr () else Inl IndexError)"

definition get_trt_path ::
  "string \<Rightarrow> ModelManager \<Rightarrow> string \<Rightarrow> profile_t \<Rightarrow> bool \<Rightarrow> py_error + (string \<times> string)" where
  "get_trt_path trt_model_dir st model_name p static_shape =
     (case profile_hash_check p static_shape of
        Inl e \<Rightarrow> Inl e
      | Inr u \<Rightarrow>
          (let trt_filename = model_name @ ''_'' @ cc st @ ''.trt'';
               trt_path = os_path_join trt_model_dir trt_filename
           in Inr (trt_filename, trt_path)))"

text \<open>
  \<^verbatim>\<open>update\<close>. For one base model, the inner loop collects the entries whose file is
  listed, in a dict keyed by file name.
\<close>

fun collect_configs :: "string list \<Rightarrow> entry list \<Rightarrow> (string \<times> entry) list \<Rightarrow> (string \<times> entry) list" where
  "collect_configs trt_engines [] tmp_config_list = tmp_config_list"
| "collect_configs trt_engines (model_config # models) tmp_config_list =
     (if filepath model_config \<notin> set trt_engines
        then collect_configs trt_engines models tmp_config_list
      else collect_configs trt_engines models
             (AList.update (filepath model_config) model_config tmp_config_list))"

text \<open>
  The loop over \<^verbatim>\<open>base_models.items()\<close>. \<^verbatim>\<open>tmp_all_models\<close> is a shallow copy, so
  \<^verbatim>\<open>base_models\<close> is the very dict \<^verbatim>\<open>self.all_models[cc]\<close>: the \<^verbatim>\<open>pop\<close> shrinks the dict
  under iteration, and the iterator raises RuntimeError (dictionary changed size during
  iteration) when asked for its next item, also when the popped key was the last one.
  The other branch assigns \<^verbatim>\<open>models\<close>, the unfiltered list, to a key that is present.
  The first argument is what remains to be visited, the second the dict itself.
\<close>

fun update_base_models ::
  "string list \<Rightarrow> (string \<times> entry list) list \<Rightarrow> (string \<times> entry list) list
     \<Rightarrow> py_error option \<times> (string \<times> entry list) list" where
  "update_base_models trt_engines [] d = (None, d)"
| "update_base_models trt_engines ((b, models) # rest) d =
     (let tmp_config_list = map snd (collect_configs trt_engines models []) in
      if length tmp_config_list = 0 then (Some RuntimeError, AList.delete b d)
      else update_base_models trt_engines rest (AList.update b models d))"

fun update_ccs ::
  "string list \<Rightarrow> (string \<times> (string \<times> entry list) list) list \<Rightarrow> registry
     \<Rightarrow> py_error option \<times> registry" where
  "update_ccs trt_engines [] reg = (None, reg)"
| "update_ccs trt_engines ((tag, base_models) # rest) reg =
     (case update_base_models trt_engines base_models base_models of
        (Some e, d) \<Rightarrow> (Some e, AList.update tag d reg)
      | (None, d) \<Rightarrow> update_ccs trt_engines rest (AList.update tag d reg))"

text \<open>
  \<open>listing\<close> is \<^verbatim>\<open>os.listdir(TRT_MODEL_DIR)\<close>. The result is the exception that left
  \<^verbatim>\<open>update\<close>, if any, and the manager as the call leaves it; the file is written only
  when the loops finish.
\<close>

definition update :: "string list \<Rightarrow> ModelManager \<Rightarrow> py_error option \<times> ModelManager" where
  "update listing st =
     (let trt_engines = filter (\<lambda>trt_file. endswith trt_file ''.trt'') listing in
      case update_ccs trt_engines (all_models st) (all_models st) of
        (Some e, reg) \<Rightarrow> (Some e, st\<lparr>all_models := reg\<rparr>)
      | (None, reg) \<Rightarrow> (None, write_json (st\<lparr>all_models := reg\<rparr>)))"

text \<open>\<^verbatim>\<open>self.all_models.get(k, default)\<close> and its like.\<close>

definition get_or :: "('k \<times> 'v) list \<Rightarrow> 'k \<Rightarrow> 'v \<Rightarrow> 'v" where
  "get_or d k dflt = (case map_of d k of None \<Rightarrow> dflt | Some v \<Rightarrow> v)"

text \<open>
  \<^verbatim>\<open>add_entry\<close>: a missing tag and a missing base-model key are first created empty, then
  the new entry is appended to the list; no existing entry is looked at.
\<close>

definition add_entry ::
  "string \<Rightarrow> ModelManager \<Rightarrow> string \<Rightarrow> profile_t \<Rightarrow> bool \<Rightarrow> bool \<Rightarrow> string \<Rightarrow> bool \<Rightarrow> bool
     \<Rightarrow> int \<Rightarrow> int \<Rightarrow> bool \<Rightarrow> py_error + ModelManager" where
  "add_entry trt_model_dir st model_name p static_shapes_arg fp32_arg baseline inpaint_arg
       refit_arg vram_arg unet_hidden_dim_arg lora_arg =
     (let cfg = \<lparr>profile = p, static_shapes = static_shapes_arg, fp32 = fp32_arg,
                 baseline_model = baseline, inpaint = inpaint_arg, refit = refit_arg,
                 lora = lora_arg, vram = vram_arg, unet_hidden_dim = unet_hidden_dim_arg\<rparr>
      in
      case get_trt_path trt_model_dir st model_name p static_shapes_arg of
        Inl e \<Rightarrow> Inl e
      | Inr (trt_name, trt_path) \<Rightarrow>
          (let base_models = get_or (all_models st) (cc st) [];
               models = get_or base_models model_name [];
               new = \<lparr>filepath = trt_name, base_model = None, config = cfg\<rparr>
           in Inr (write_json
                (st\<lparr>all_models :=
                     AList.update (cc st)
                       (AList.update model_name (models @ [new]) base_models)
                       (all_models st)\<rparr>))))"

text \<open>
  \<^verbatim>\<open>add_lora_entry\<close> subscripts \<^verbatim>\<open>self.all_models[self.cc]\<close> without creating it: KeyError
  when the tag is missing. The list under \<^verbatim>\<open>lora_name\<close> is replaced by the one new entry.
\<close>

definition add_lora_entry ::
  "ModelManager \<Rightarrow> string \<Rightarrow> string \<Rightarrow> string \<Rightarrow> bool \<Rightarrow> string \<Rightarrow> bool \<Rightarrow> int \<Rightarrow> int
     \<Rightarrow> py_error + ModelManager" where
  "add_lora_entry st base lora_name trt_lora_path fp32_arg baseline inpaint_arg vram_arg
       unet_hidden_dim_arg =
     (let cfg = \<lparr>profile = ProfileList [[], [], []], static_shapes = False, fp32 = fp32_arg,
                 baseline_model = baseline, inpaint = inpaint_arg, refit = True,
                 lora = True, vram = vram_arg, unet_hidden_dim = unet_hidden_dim_arg\<rparr>
      in
      case map_of (all_models st) (cc st) of
        None \<Rightarrow> Inl KeyError
      | Some base_models \<Rightarrow>
          Inr (write_json
            (st\<lparr>all_models :=
                 AList.update (cc st)
                   (AList.update lora_name
                      [\<lparr>filepath = trt_lora_path, base_model = Some base, config = cfg\<rparr>]
                      base_models)
                   (all_models st)\<rparr>)))"

text \<open>
  \<^verbatim>\<open>__init__\<close>: \<open>stored\<close> is the content of the model file if it exists. The registry
  is read, then reconciled with the directory listing.
\<close>

definition init :: "string \<Rightarrow> json option \<Rightarrow> string list \<Rightarrow> py_error + ModelManager" where
  "init tag stored listing =
     (let st0 = \<lparr>all_models = [], cc = tag, model_file = stored\<rparr> in
      case (case stored of None \<Rightarrow> Inr [] | Some doc \<Rightarrow> read_json st0) of
        Inl e \<Rightarrow> Inl e
      | Inr reg \<Rightarrow>
          (case update listing (st0\<lparr>all_models := reg\<rparr>) of
             (Some e, st) \<Rightarrow> Inl e
           | (None, st) \<Rightarrow> Inr st))"

subsection \<open>Lookup\<close>

definition available_models :: "ModelManager \<Rightarrow> (string \<times> entry list) list" where
  "available_models st = get_or (all_models st) (cc st) []"

text \<open>
  The loop shared by the two lookups: \<open>query\<close> is the matcher applied to an entry's
  config. An exception of the matcher leaves the loop.
\<close>

fun valid_loop ::
  "(ModelConfig \<Rightarrow> py_error + (bool \<times> rat)) \<Rightarrow> entry list \<Rightarrow> entry list \<Rightarrow> rat list
     \<Rightarrow> py_error + (entry list \<times> rat list)" where
  "valid_loop query [] valid_models distances = Inr (valid_models, distances)"
| "valid_loop query (model # models) valid_models distances =
     (case query (config model) of
        Inl e \<Rightarrow> Inl e
      | Inr (valid, distance) \<Rightarrow>
          if valid then valid_loop query models (valid_models @ [model]) (distances @ [distance])
          else valid_loop query models valid_models distances)"

text \<open>\<^verbatim>\<open>models[base_model]\<close> is a plain subscript: KeyError when the key is missing.\<close>

definition get_valid_models_from_dict ::
  "ModelManager \<Rightarrow> string \<Rightarrow> (string \<times> shape) list \<Rightarrow> py_error + (entry list \<times> rat list)" where
  "get_valid_models_from_dict st base feed_dict =
     (case map_of (available_models st) base of
        None \<Rightarrow> Inl KeyError
      | Some models \<Rightarrow> valid_loop (\<lambda>c. is_compatible_from_dict c feed_dict) models [] [])"

definition get_valid_models ::
  "ModelManager \<Rightarrow> string \<Rightarrow> int \<Rightarrow> int \<Rightarrow> int \<Rightarrow> int \<Rightarrow> py_error + (entry list \<times> rat list)" where
  "get_valid_models st base width height batch_size max_embedding =
     (case map_of (available_models st) base of
        None \<Rightarrow> Inl KeyError
      | Some models \<Rightarrow>
          valid_loop (\<lambda>c. is_compatible c width height batch_size max_embedding) models [] [])"

section \<open>Weight refit: graph alignment and the weight-update set\<close>

text \<open>
  The part of \<^verbatim>\<open>Engine.refit\<close> that builds \<^verbatim>\<open>name_map\<close> and \<^verbatim>\<open>refit_dict\<close>. A graph is
  the list of its nodes after \<^verbatim>\<open>toposort()\<close>; a tensor is a \<^verbatim>\<open>gs.Constant\<close> with values
  or a \<^verbatim>\<open>gs.Variable\<close>. Of a weight array the code reads the dtype and the number of
  dimensions only; the elements are kept as integers.
\<close>

datatype WeightsRole = KERNEL | BIAS | SHIFT | SCALE | CONSTANT | ANY

fun change_trt_layer_name :: "string \<Rightarrow> WeightsRole \<Rightarrow> string" where
  "change_trt_layer_name layer_name KERNEL = layer_name @ ''_TRTKERNEL''"
| "change_trt_layer_name layer_name BIAS = layer_name @ ''_TRTBIAS''"
| "change_trt_layer_name layer_name role = layer_name"

datatype dtype = Int64 | Int32 | Float32 | Float16

record ndarray =
  array_dtype :: dtype
  array_shape :: "nat list"
  array_items :: "int list"

datatype tensor = Constant string ndarray | Variable string

fun tensor_name :: "tensor \<Rightarrow> string" where
  "tensor_name (Constant n vs) = n"
| "tensor_name (Variable n) = n"

fun is_Constant :: "tensor \<Rightarrow> bool" where
  "is_Constant (Constant n vs) = True"
| "is_Constant (Variable n) = False"

record node =
  op :: string
  node_name :: string
  inputs :: "tensor list"
  outputs :: "tensor list"

type_synonym name_map = "(string \<times> string) list"

subsection \<open>Alignment\<close>

text \<open>
  The branch for the nodes that are neither Constant nor Conv: every input of the
  original node that is a \<^verbatim>\<open>gs.Constant\<close> maps the name of the refit node's input in the
  same slot to its own name. A failing step returns the exception with the map built so
  far.
\<close>

fun map_other_inputs ::
  "tensor list \<Rightarrow> nat \<Rightarrow> node \<Rightarrow> name_map \<Rightarrow> (py_error \<times> name_map) + name_map" where
  "map_other_inputs [] i refit_node m = Inr m"
| "map_other_inputs (inp # rest) i refit_node m =
     (if is_Constant inp then
        (case getitem (inputs refit_node) i of
           Inl e \<Rightarrow> Inl (e, m)
         | Inr r \<Rightarrow>
             map_other_inputs rest (Suc i) refit_node
               (AList.update (tensor_name r) (tensor_name inp) m))
      else map_other_inputs rest (Suc i) refit_node m)"

definition map_conv :: "node \<Rightarrow> node \<Rightarrow> name_map \<Rightarrow> (py_error \<times> name_map) + name_map" where
  "map_conv nd refit_node m =
     (case getitem (inputs nd) 1 of
        Inl e \<Rightarrow> Inl (e, m)
      | Inr kern \<Rightarrow>
          (let m1 = (if is_Constant kern
                     then AList.update (node_name refit_node @ ''_TRTKERNEL'')
                            (node_name nd @ ''_TRTKERNEL'') m
                     else m)
           in case getitem (inputs nd) 2 of
                Inl e \<Rightarrow> Inl (e, m1)
              | Inr bias \<Rightarrow>
                  Inr (if is_Constant bias
                       then AList.update (node_name refit_node @ ''_TRTBIAS'')
                              (node_name nd @ ''_TRTBIAS'') m1
                       else m1)))"

definition map_constant :: "node \<Rightarrow> node \<Rightarrow> name_map \<Rightarrow> (py_error \<times> name_map) + name_map" where
  "map_constant nd refit_node m =
     (case getitem (outputs nd) 0 of
        Inl e \<Rightarrow> Inl (e, m)
      | Inr out \<Rightarrow>
          (case getitem (outputs refit_node) 0 of
             Inl e \<Rightarrow> Inl (e, m)
           | Inr refit_out \<Rightarrow> Inr (AList.update (tensor_name refit_out) (tensor_name out) m)))"

text \<open>
  One pass of the loop body for the pair \<open>(nd, refit_node)\<close>, after the assertion on the
  operator kinds.
\<close>

definition map_node :: "node \<Rightarrow> node \<Rightarrow> name_map \<Rightarrow> (py_error \<times> name_map) + name_map" where
  "map_node nd refit_node m =
     (if op nd = ''Constant'' then map_constant nd refit_node m
      else if op nd = ''Conv'' then map_conv nd refit_node m
      else map_other_inputs (inputs nd) 0 refit_node m)"

text \<open>
  The loop \<^verbatim>\<open>for n, node in enumerate(nodes)\<close>: \<^verbatim>\<open>refit_nodes[n]\<close> raises IndexError when
  the refit graph is shorter, and the assertion compares the operator kinds.
\<close>

fun build_name_map ::
  "node list \<Rightarrow> node list \<Rightarrow> nat \<Rightarrow> name_map \<Rightarrow> (py_error \<times> name_map) + name_map" where
  "build_name_map [] refit_nodes n m = Inr m"
| "build_name_map (nd # rest) refit_nodes n m =
     (case getitem refit_nodes n of
        Inl e \<Rightarrow> Inl (e, m)
      | Inr refit_node \<Rightarrow>
          if op nd \<noteq> op refit_node then Inl (AssertionError, m)
          else (case map_node nd refit_node m of
                  Inl em \<Rightarrow> Inl em
                | Inr m1 \<Rightarrow> build_name_map rest refit_nodes (Suc n) m1))"

definition map_name :: "name_map \<Rightarrow> string \<Rightarrow> string" where
  "map_name m n = (case map_of m n of None \<Rightarrow> n | Some n' \<Rightarrow> n')"

subsection \<open>The weight-update set\<close>

type_synonym refit_dict = "(string \<times> ndarray option) list"

text \<open>
  Every (layer, role) pair of the engine gets its canonical name, asserted to be new,
  with the value \<^verbatim>\<open>None\<close>.
\<close>

fun init_refit_dict :: "(string \<times> WeightsRole) list \<Rightarrow> refit_dict \<Rightarrow> py_error + refit_dict" where
  "init_refit_dict [] d = Inr d"
| "init_refit_dict ((layer_name, role) # rest) d =
     (let name = change_trt_layer_name layer_name role in
      if name \<in> set (map fst d) then Inl AssertionError
      else init_refit_dict rest (AList.update name None d))"

text \<open>
  \<^verbatim>\<open>np.int32(values)\<close> on a 0-dimensional int64 array keeps the low 32 bits, read as a
  signed number.
\<close>

definition narrow_int32 :: "ndarray \<Rightarrow> ndarray" where
  "narrow_int32 vs =
     vs\<lparr>array_dtype := Int32,
        array_items := map (\<lambda>x. sint (word_of_int x :: 32 word)) (array_items vs)\<rparr>"

definition add_to_map :: "string \<Rightarrow> ndarray \<Rightarrow> refit_dict \<Rightarrow> py_error + refit_dict" where
  "add_to_map name vs d =
     (case map_of d name of
        None \<Rightarrow> Inr d
      | Some (Some old) \<Rightarrow> Inl AssertionError
      | Some None \<Rightarrow>
          Inr (AList.update name
                 (Some (if array_dtype vs = Int64 \<and> length (array_shape vs) = 0
                        then narrow_int32 vs else vs))
                 d))"

text \<open>
  The walk keeps the dict and the messages handed to \<^verbatim>\<open>logging.error\<close>. In the Constant
  and Conv branches the call of \<^verbatim>\<open>add_to_map\<close> stands in a \<^verbatim>\<open>try\<close> with a bare
  \<^verbatim>\<open>except\<close>: whatever it raises, and the read of \<^verbatim>\<open>.values\<close> on a tensor that has
  none, is logged and the walk goes on. The subscripts \<^verbatim>\<open>n.outputs[0]\<close>, \<^verbatim>\<open>n.inputs[1]\<close> and
  \<^verbatim>\<open>n.inputs[2]\<close> are outside the \<^verbatim>\<open>try\<close>.
\<close>

type_synonym walk_state = "refit_dict \<times> string list"

definition try_add :: "string \<Rightarrow> string \<Rightarrow> tensor \<Rightarrow> walk_state \<Rightarrow> walk_state" where
  "try_add kind name t s =
     (case t of
        Variable n \<Rightarrow> (fst s, snd s @ [''Failed to add '' @ kind @ '' '' @ name @ [CHR 0x0A]])
      | Constant n vs \<Rightarrow>
          (case add_to_map name vs (fst s) of
             Inl e \<Rightarrow> (fst s, snd s @ [''Failed to add '' @ kind @ '' '' @ name @ [CHR 0x0A]])
           | Inr d \<Rightarrow> (d, snd s)))"

fun walk_other_inputs :: "name_map \<Rightarrow> tensor list \<Rightarrow> refit_dict \<Rightarrow> py_error + refit_dict" where
  "walk_other_inputs m [] d = Inr d"
| "walk_other_inputs m (Variable n # rest) d = walk_other_inputs m rest d"
| "walk_other_inputs m (Constant n vs # rest) d =
     (case add_to_map (map_name m n) vs d of
        Inl e \<Rightarrow> Inl e
      | Inr d1 \<Rightarrow> walk_other_inputs m rest d1)"

definition walk_node :: "name_map \<Rightarrow> node \<Rightarrow> walk_state \<Rightarrow> py_error + walk_state" where
  "walk_node m n s =
     (if op n = ''Constant'' then
        (case getitem (outputs n) 0 of
           Inl e \<Rightarrow> Inl e
         | Inr out \<Rightarrow> Inr (try_add ''Constant'' (map_name m (tensor_name out)) out s))
      else if op n = ''Conv'' then
        (case getitem (inputs n) 1 of
           Inl e \<Rightarrow> Inl e
         | Inr kern \<Rightarrow>
             (let s1 = (if is_Constant kern
                        then try_add ''Conv'' (map_name m (node_name n @ ''_TRTKERNEL'')) kern s
                        else s)
              in case getitem (inputs n) 2 of
                   Inl e \<Rightarrow> Inl e
                 | Inr bias \<Rightarrow>
                     Inr (if is_Constant bias
                          then try_add ''Conv'' (map_name m (node_name n @ ''_TRTBIAS'')) bias s1
                          else s1)))
      else
        (case walk_other_inputs m (inputs n) (fst s) of
           Inl e \<Rightarrow> Inl e
         | Inr d \<Rightarrow> Inr (d, snd s)))"

fun walk_nodes :: "name_map \<Rightarrow> node list \<Rightarrow> walk_state \<Rightarrow> py_error + walk_state" where
  "walk_nodes m [] s = Inr s"
| "walk_nodes m (n # rest) s =
     (case walk_node m n s of Inl e \<Rightarrow> Inl e | Inr s1 \<Rightarrow> walk_nodes m rest s1)"

text \<open>
  \<^verbatim>\<open>Engine.refit\<close> up to the point where \<^verbatim>\<open>refit_dict\<close> is complete. \<open>all_weights\<close> is
  what \<^verbatim>\<open>refitter.get_all()\<close> returns: the layer names and, in parallel, their roles.
\<close>

definition refit_build ::
  "node list \<Rightarrow> node list \<Rightarrow> string list \<times> WeightsRole list \<Rightarrow> py_error + walk_state" where
  "refit_build onnx_nodes refit_nodes all_weights =
     (case build_name_map onnx_nodes refit_nodes 0 [] of
        Inl em \<Rightarrow> Inl (fst em)
      | Inr m \<Rightarrow>
          (case init_refit_dict (zip (fst all_weights) (snd all_weights)) [] of
             Inl e \<Rightarrow> Inl e
           | Inr d \<Rightarrow> walk_nodes m refit_nodes (d, [])))"

section \<open>Predicates and concrete data used in the statements\<close>

text \<open>
  The distance of one input as the specification writes it:
  \<open>|opt - v| + 0.5 * ((max - v) + 0.5 * (v - min))\<close>, summed over the dimensions.
  \<open>t\<close> is the triple \<open>[min, opt, max]\<close>.
\<close>

definition spec_distance :: "shape list \<Rightarrow> shape \<Rightarrow> rat" where
  "spec_distance t v =
     (\<Sum>i < length v. \<bar>of_int (t ! 1 ! i) - of_int (v ! i)\<bar>
        + (1 / 2) * ((of_int (t ! 2 ! i) - of_int (v ! i))
                     + (1 / 2) * (of_int (v ! i) - of_int (t ! 0 ! i))))"

definition example_config :: "profile_t \<Rightarrow> ModelConfig" where
  "example_config p =
     \<lparr>profile = p, static_shapes = False, fp32 = False, baseline_model = ''SD15'',
      inpaint = False, refit = False, lora = False, vram = 0, unet_hidden_dim = 4\<rparr>"

text \<open>The profile of the end-to-end scenarios, with bounds for the text embedding.\<close>

definition scenario_profile :: profile_t where
  "scenario_profile = ProfileDict
     [(''sample'', [[1, 4, 64, 64], [2, 4, 64, 64], [4, 4, 96, 96]]),
      (''encoder_hidden_states'', [[1, 77, 768], [2, 77, 768], [4, 154, 768]])]"

definition example_entry :: "string \<Rightarrow> entry" where
  "example_entry f =
     \<lparr>filepath = f, base_model = None, config = example_config scenario_profile\<rparr>"

text \<open>A registry with two engines of one base model, as read from a model file.\<close>

definition stale_manager :: ModelManager where
  "stale_manager =
     \<lparr>all_models = [(''cc86'', [(''m'', [example_entry ''a.trt'', example_entry ''b.trt''])])],
      cc = ''cc86'', model_file = None\<rparr>"


text \<open>Two small graphs: a Constant node followed by a node with one initializer.\<close>

definition weights :: "int list \<Rightarrow> ndarray" where
  "weights xs = \<lparr>array_dtype = Float32, array_shape = [length xs], array_items = xs\<rparr>"

definition const_node :: "string \<Rightarrow> string \<Rightarrow> int list \<Rightarrow> node" where
  "const_node nm out xs =
     \<lparr>op = ''Constant'', node_name = nm, inputs = [], outputs = [Constant out (weights xs)]\<rparr>"

definition other_node :: "string \<Rightarrow> string \<Rightarrow> tensor list \<Rightarrow> node" where
  "other_node kind nm ins =
     \<lparr>op = kind, node_name = nm, inputs = ins, outputs = [Variable (nm @ ''_out'')]\<rparr>"

definition onnx_graph :: "node list" where
  "onnx_graph =
     [const_node ''c0'' ''w0'' [1, 2],
      other_node ''MatMul'' ''mm'' [Variable ''x'', Constant ''W'' (weights [3])]]"

definition refit_graph :: "string \<Rightarrow> node list" where
  "refit_graph kind =
     [const_node ''c0'' ''r0'' [5, 6],
      other_node kind ''mm'' [Variable ''x'', Constant ''W2'' (weights [4])]]"




text \<open>
  What the loop of a lookup sees of an entry: whether the matcher accepts its config,
  the distance it returns, and whether it raises.
\<close>

definition accepted :: "(ModelConfig \<Rightarrow> py_error + (bool \<times> rat)) \<Rightarrow> entry \<Rightarrow> bool" where
  "accepted query model = (case query (config model) of Inl e \<Rightarrow> False | Inr r \<Rightarrow> fst r)"

definition distance_of :: "(ModelConfig \<Rightarrow> py_error + (bool \<times> rat)) \<Rightarrow> entry \<Rightarrow> rat" where
  "distance_of query model = (case query (config model) of Inl e \<Rightarrow> 0 | Inr r \<Rightarrow> snd r)"

definition raises :: "(ModelConfig \<Rightarrow> py_error + (bool \<times> rat)) \<Rightarrow> entry \<Rightarrow> bool" where
  "raises query model = (case query (config model) of Inl e \<Rightarrow> True | Inr r \<Rightarrow> False)"

definition empty_manager :: ModelManager where
  "empty_manager = \<lparr>all_models = [], cc = ''cc86'', model_file = None\<rparr>"

text \<open>
  The invariant of the registry: under no (tag, base model) key do two entries name the
  same file.
\<close>

definition no_duplicate_files :: "registry \<Rightarrow> bool" where
  "no_duplicate_files reg =
     list_all (\<lambda>tb. list_all (\<lambda>bm. distinct (map filepath (snd bm))) (snd tb)) reg"

text \<open>The manager a call returned, or \<open>dflt\<close> if the call raised.\<close>

definition returned :: "py_error + 'a \<Rightarrow> 'a \<Rightarrow> 'a" where
  "returned r dflt = (case r of Inl e \<Rightarrow> dflt | Inr x \<Rightarrow> x)"

text \<open>Registering an engine for the model \<^verbatim>\<open>m\<close>, once and a second time.\<close>

definition add_m :: "ModelManager \<Rightarrow> py_error + ModelManager" where
  "add_m st =
     add_entry ''Unet-trt'' st ''m'' scenario_profile False False ''SD15'' False False 0 4 False"

definition once_added :: ModelManager where
  "once_added = returned (add_m empty_manager) empty_manager"

definition twice_added :: ModelManager where
  "twice_added = returned (add_m once_added) empty_manager"












section \<open>Properties\<close>

subsection \<open>Reconcile\<close>

text \<open>
  C2. After \<^verbatim>\<open>update\<close> the registry should hold no entry whose file is missing from the
  directory. The loop computes the surviving entries in \<^verbatim>\<open>tmp_config_list\<close> but stores
  \<^verbatim>\<open>models\<close>, the unfiltered list, whenever one entry survives. With \<^verbatim>\<open>a.trt\<close> present
  and \<^verbatim>\<open>b.trt\<close> missing, \<^verbatim>\<open>update\<close> returns normally, writes the file, and the entry for
  \<^verbatim>\<open>b.trt\<close> is still registered.
\<close>

theorem update_keeps_stale_entry:
  "update [''a.trt'', ''model.json''] stale_manager = (None, write_json stale_manager)
   \<and> map filepath
         (get_or (available_models (snd (update [''a.trt'', ''model.json''] stale_manager)))
            ''m'' [])
       = [''a.trt'', ''b.trt'']"
  by code_simp

text \<open>
  When no entry of a base model survives, the key is popped from the dict that is being
  iterated: the call ends with RuntimeError, the file is not written, and the base
  models after it are not visited.
\<close>

lemma update_pop_raises:
  "update [''model.json''] stale_manager
     = (Some RuntimeError, stale_manager\<lparr>all_models := [(''cc86'', [])]\<rparr>)"
  by code_simp

subsection \<open>The distance of the tensor form\<close>

text \<open>
  C1. The specification gives the distance of an accepted request as the sum of
  \<open>|opt - v| + 0.5 * ((max - v) + 0.5 * (v - min))\<close>. The code names \<open>max - v\<close>
  \<^verbatim>\<open>r_min\<close> and \<open>v - min\<close> \<^verbatim>\<open>r_max\<close>, so its sum gives the weight 0.5 to \<open>v - min\<close> and
  0.25 to \<open>max - v\<close>. For the scenario profile and a sample of shape \<open>[2, 4, 64, 64]\<close>
  the code returns 17 where the specification's formula gives 33.25.
\<close>

theorem from_dict_distance_differs:
  "is_compatible_from_dict (example_config scenario_profile) [(''sample'', [2, 4, 64, 64])]
     = Inr (True, 17)
   \<and> spec_distance [[1, 4, 64, 64], [2, 4, 64, 64], [4, 4, 96, 96]] [2, 4, 64, 64] = 133 / 4"
  by (simp add: is_compatible_from_dict_def example_config_def scenario_profile_def
      tensor_sub_def to_tensor_def spec_distance_def lessThan_nat_numeral lessThan_Suc)

subsection \<open>The registry file\<close>












subsection \<open>Alignment of the two graphs\<close>

text \<open>The steps of the alignment raise nothing but IndexError.\<close>

lemma map_other_inputs_error:
  "map_other_inputs ins i r m = Inl (e, m') \<Longrightarrow> e = IndexError"
  by (induction ins arbitrary: i m)
    (auto simp: getitem_def split: if_splits sum.splits)

lemma map_node_error: "map_node nd r m = Inl (e, m') \<Longrightarrow> e = IndexError"
  by (auto simp: map_node_def map_constant_def map_conv_def getitem_def Let_def
      dest: map_other_inputs_error split: if_splits sum.splits)

lemma mismatch_aborts:
  "i < length xs \<Longrightarrow> n + i < length refit_nodes \<Longrightarrow> op (xs ! i) \<noteq> op (refit_nodes ! (n + i))
     \<Longrightarrow> \<exists>e m'. build_name_map xs refit_nodes n m = Inl (e, m')"
proof (induction xs arbitrary: i n m)
  case Nil
  then show ?case by simp
next
  case (Cons x xs)
  show ?case
  proof (cases i)
    case 0
    with Cons.prems show ?thesis by (simp add: getitem_def)
  next
    case (Suc k)
    with Cons.prems have "k < length xs" "Suc n + k < length refit_nodes"
      "op (xs ! k) \<noteq> op (refit_nodes ! (Suc n + k))" by simp_all
    from Cons.IH [OF this] show ?thesis
      by (auto simp: getitem_def split: sum.splits)
  qed
qed

lemma mismatch_cuts:
  "i < length xs \<Longrightarrow> n + i < length refit_nodes \<Longrightarrow> op (xs ! i) \<noteq> op (refit_nodes ! (n + i))
     \<Longrightarrow> build_name_map xs refit_nodes n m = build_name_map (take (Suc i) xs) refit_nodes n m"
proof (induction xs arbitrary: i n m)
  case Nil
  then show ?case by simp
next
  case (Cons x xs)
  show ?case
  proof (cases i)
    case 0
    with Cons.prems show ?thesis by (simp add: getitem_def)
  next
    case (Suc k)
    with Cons.prems have "k < length xs" "Suc n + k < length refit_nodes"
      "op (xs ! k) \<noteq> op (refit_nodes ! (Suc n + k))" by simp_all
    from Cons.IH [OF this] show ?thesis
      using Suc by (auto simp: getitem_def split: sum.splits)
  qed
qed

lemma mismatch_assertion:
  "i < length xs \<Longrightarrow> n + i < length refit_nodes \<Longrightarrow> op (xs ! i) \<noteq> op (refit_nodes ! (n + i))
     \<Longrightarrow> build_name_map (take i xs) refit_nodes n m = Inr m'
     \<Longrightarrow> build_name_map xs refit_nodes n m = Inl (AssertionError, m')"
proof (induction xs arbitrary: i n m)
  case Nil
  then show ?case by simp
next
  case (Cons x xs)
  show ?case
  proof (cases i)
    case 0
    with Cons.prems show ?thesis by (simp add: getitem_def)
  next
    case (Suc k)
    with Cons.prems have k: "k < length xs" "Suc n + k < length refit_nodes"
      "op (xs ! k) \<noteq> op (refit_nodes ! (Suc n + k))" by simp_all
    from Cons.prems(4) Suc obtain m1 where
      m1: "getitem refit_nodes n = Inr (refit_nodes ! n)" "op x = op (refit_nodes ! n)"
        "map_node x (refit_nodes ! n) m = Inr m1"
        "build_name_map (take k xs) refit_nodes (Suc n) m1 = Inr m'"
      by (auto simp: getitem_def split: sum.splits if_splits)
    from Cons.IH [OF k m1(4)] m1(1-3) show ?thesis by simp
  qed
qed

lemma aligned_no_assertion:
  "(\<forall>j. j < length xs \<and> n + j < length refit_nodes \<longrightarrow> op (xs ! j) = op (refit_nodes ! (n + j)))
     \<Longrightarrow> build_name_map xs refit_nodes n m \<noteq> Inl (AssertionError, m')"
proof (induction xs arbitrary: n m)
  case Nil
  then show ?case by simp
next
  case (Cons x xs)
  have head: "n < length refit_nodes \<Longrightarrow> op x = op (refit_nodes ! n)"
    using Cons.prems [rule_format, of 0] by simp
  have tail: "\<forall>j. j < length xs \<and> Suc n + j < length refit_nodes
                \<longrightarrow> op (xs ! j) = op (refit_nodes ! (Suc n + j))"
    using Cons.prems by (auto dest: spec [where x = "Suc j" for j])
  show ?case
    using head Cons.IH [OF tail]
    by (auto simp: getitem_def dest: map_node_error split: sum.splits)
qed

text \<open>
  C8. If the nodes at some position \<open>i\<close> of the two sorted graphs differ in their
  operator kind, the alignment ends with an exception and so does the refit; the walk
  never gets past position \<open>i\<close> (its outcome is that of the walk over the first
  \<open>i + 1\<close> nodes), and when the pairs before \<open>i\<close> were mapped without error the
  exception is the AssertionError, raised with the map of exactly those pairs. If all
  pairs agree in their operator kind, no AssertionError is raised.
\<close>

theorem op_mismatch_aborts_alignment:
  "(i < length onnx_nodes \<and> i < length refit_nodes \<and> op (onnx_nodes ! i) \<noteq> op (refit_nodes ! i) \<longrightarrow>
      (\<exists>e m. build_name_map onnx_nodes refit_nodes 0 [] = Inl (e, m))
      \<and> build_name_map onnx_nodes refit_nodes 0 []
          = build_name_map (take (Suc i) onnx_nodes) refit_nodes 0 []
      \<and> (\<forall>m. build_name_map (take i onnx_nodes) refit_nodes 0 [] = Inr m
            \<longrightarrow> build_name_map onnx_nodes refit_nodes 0 [] = Inl (AssertionError, m))
      \<and> (\<exists>e. refit_build onnx_nodes refit_nodes all_weights = Inl e))
   \<and> ((\<forall>j. j < length onnx_nodes \<and> j < length refit_nodes \<longrightarrow> op (onnx_nodes ! j) = op (refit_nodes ! j))
        \<longrightarrow> (\<forall>m. build_name_map onnx_nodes refit_nodes 0 [] \<noteq> Inl (AssertionError, m)))"
proof (intro conjI impI allI)
  assume h: "i < length onnx_nodes \<and> i < length refit_nodes \<and> op (onnx_nodes ! i) \<noteq> op (refit_nodes ! i)"
  then show ab: "\<exists>e m. build_name_map onnx_nodes refit_nodes 0 [] = Inl (e, m)"
    using mismatch_aborts [of i onnx_nodes 0 refit_nodes "[]"] by simp
  from h show "build_name_map onnx_nodes refit_nodes 0 []
          = build_name_map (take (Suc i) onnx_nodes) refit_nodes 0 []"
    using mismatch_cuts [of i onnx_nodes 0 refit_nodes "[]"] by simp
  from ab show "\<exists>e. refit_build onnx_nodes refit_nodes all_weights = Inl e"
    by (auto simp: refit_build_def)
next
  fix m
  assume "i < length onnx_nodes \<and> i < length refit_nodes \<and> op (onnx_nodes ! i) \<noteq> op (refit_nodes ! i)"
    and "build_name_map (take i onnx_nodes) refit_nodes 0 [] = Inr m"
  then show "build_name_map onnx_nodes refit_nodes 0 [] = Inl (AssertionError, m)"
    using mismatch_assertion [of i onnx_nodes 0 refit_nodes "[]" m] by simp
next
  fix m
  assume "\<forall>j. j < length onnx_nodes \<and> j < length refit_nodes \<longrightarrow> op (onnx_nodes ! j) = op (refit_nodes ! j)"
  then show "build_name_map onnx_nodes refit_nodes 0 [] \<noteq> Inl (AssertionError, m)"
    using aligned_no_assertion [of onnx_nodes 0 refit_nodes "[]" m] by simp
qed

theorem op_mismatch_aborts_alignment_witness:
  "(1 < length onnx_graph \<and> 1 < length (refit_graph ''Add'')
      \<and> op (onnx_graph ! 1) \<noteq> op (refit_graph ''Add'' ! 1))
   \<and> build_name_map (take 1 onnx_graph) (refit_graph ''Add'') 0 [] = Inr [(''r0'', ''w0'')]
   \<and> build_name_map onnx_graph (refit_graph ''Add'') 0 [] = Inl (AssertionError, [(''r0'', ''w0'')])
   \<and> build_name_map onnx_graph (refit_graph ''MatMul'') 0 [] = Inr [(''r0'', ''w0''), (''W2'', ''W'')]"
proof -
  have hyp: "1 < length onnx_graph \<and> 1 < length (refit_graph ''Add'')
      \<and> op (onnx_graph ! 1) \<noteq> op (refit_graph ''Add'' ! 1)"
    by (simp add: onnx_graph_def refit_graph_def other_node_def)
  have pre: "build_name_map (take 1 onnx_graph) (refit_graph ''Add'') 0 [] = Inr [(''r0'', ''w0'')]"
    by (simp add: onnx_graph_def refit_graph_def const_node_def getitem_def map_node_def
        map_constant_def)
  have ok: "build_name_map onnx_graph (refit_graph ''MatMul'') 0 []
              = Inr [(''r0'', ''w0''), (''W2'', ''W'')]"
    by (simp add: onnx_graph_def refit_graph_def const_node_def other_node_def getitem_def
        map_node_def map_constant_def)
  from op_mismatch_aborts_alignment [of 1 onnx_graph "refit_graph ''Add''" "([], [])"] hyp pre
  have "build_name_map onnx_graph (refit_graph ''Add'') 0 [] = Inl (AssertionError, [(''r0'', ''w0'')])"
    by blast
  with hyp pre ok show ?thesis by blast
qed

subsection \<open>Duplicate names in the weight-update set\<close>

lemma init_refit_dict_error: "init_refit_dict ws d = Inl e \<Longrightarrow> e = AssertionError"
  by (induction ws arbitrary: d) (auto simp: Let_def split: if_splits)














subsection \<open>Lookup\<close>

lemma valid_loop_returns:
  "\<not> list_ex (raises query) models \<Longrightarrow>
     valid_loop query models valid_models distances
       = Inr (valid_models @ filter (accepted query) models,
              distances @ map (distance_of query) (filter (accepted query) models))"
  by (induction models arbitrary: valid_models distances)
    (auto simp: raises_def accepted_def distance_of_def split: sum.splits)

lemma valid_loop_raises:
  "list_ex (raises query) models \<Longrightarrow> \<exists>e. valid_loop query models valid_models distances = Inl e"
  by (induction models arbitrary: valid_models distances)
    (auto simp: raises_def split: sum.splits)

text \<open>
  C6, as stated: a lookup returns an empty result when the base model or the tag has no
  entries. Both lookups subscript \<^verbatim>\<open>models[base_model]\<close>, which raises KeyError for a
  base model that is not registered, and under a tag that is not registered.
\<close>

theorem lookup_absent_key_raises:
  "get_valid_models stale_manager ''other'' 512 512 1 77 = Inl KeyError
   \<and> get_valid_models_from_dict stale_manager ''other'' [(''sample'', [2, 4, 64, 64])] = Inl KeyError
   \<and> get_valid_models empty_manager ''m'' 512 512 1 77 = Inl KeyError
   \<and> get_valid_models_from_dict empty_manager ''m'' [(''sample'', [2, 4, 64, 64])] = Inl KeyError"
  by (simp add: get_valid_models_def get_valid_models_from_dict_def available_models_def
      get_or_def stale_manager_def empty_manager_def)

text \<open>
  C6, amended. \<^verbatim>\<open>available_models\<close> is empty when the tag is not registered. A lookup of
  a base model that is not a key under the current tag raises KeyError. For a base
  model that is a key, the lookup returns the entries the matcher accepts, in the order
  of the registry, with their distances in parallel, provided the matcher raises on no
  entry; if it raises on one, so does the lookup.
\<close>

theorem lookup_result:
  "(map_of (all_models st) (cc st) = None \<longrightarrow> available_models st = [])
   \<and> (map_of (available_models st) base = None \<longrightarrow>
        get_valid_models st base width height batch_size max_embedding = Inl KeyError
        \<and> get_valid_models_from_dict st base feed_dict = Inl KeyError)
   \<and> (map_of (available_models st) base = Some models
        \<and> \<not> list_ex (raises (\<lambda>c. is_compatible c width height batch_size max_embedding)) models \<longrightarrow>
        get_valid_models st base width height batch_size max_embedding
          = Inr (filter (accepted (\<lambda>c. is_compatible c width height batch_size max_embedding)) models,
                 map (distance_of (\<lambda>c. is_compatible c width height batch_size max_embedding))
                   (filter (accepted (\<lambda>c. is_compatible c width height batch_size max_embedding)) models)))
   \<and> (map_of (available_models st) base = Some models
        \<and> \<not> list_ex (raises (\<lambda>c. is_compatible_from_dict c feed_dict)) models \<longrightarrow>
        get_valid_models_from_dict st base feed_dict
          = Inr (filter (accepted (\<lambda>c. is_compatible_from_dict c feed_dict)) models,
                 map (distance_of (\<lambda>c. is_compatible_from_dict c feed_dict))
                   (filter (accepted (\<lambda>c. is_compatible_from_dict c feed_dict)) models)))
   \<and> (map_of (available_models st) base = Some models
        \<and> list_ex (raises (\<lambda>c. is_compatible c width height batch_size max_embedding)) models \<longrightarrow>
        (\<exists>e. get_valid_models st base width height batch_size max_embedding = Inl e))
   \<and> (map_of (available_models st) base = Some models
        \<and> list_ex (raises (\<lambda>c. is_compatible_from_dict c feed_dict)) models \<longrightarrow>
        (\<exists>e. get_valid_models_from_dict st base feed_dict = Inl e))"
  by (simp add: available_models_def get_or_def get_valid_models_def
      get_valid_models_from_dict_def valid_loop_returns valid_loop_raises)

theorem lookup_result_witness:
  "map_of (available_models stale_manager) ''m'' = Some [example_entry ''a.trt'', example_entry ''b.trt'']
   \<and> get_valid_models stale_manager ''m'' 512 512 1 77
       = Inr ([example_entry ''a.trt'', example_entry ''b.trt''], [32, 32])
   \<and> get_valid_models stale_manager ''m'' 512 512 3 77 = Inr ([], [])
   \<and> get_valid_models_from_dict stale_manager ''m'' [(''sample'', [2, 4, 64, 64])]
       = Inr ([example_entry ''a.trt'', example_entry ''b.trt''], [17, 17])
   \<and> available_models empty_manager = []
   \<and> get_valid_models empty_manager ''m'' 512 512 1 77 = Inl KeyError"
proof -
  have k: "map_of (available_models stale_manager) ''m''
             = Some [example_entry ''a.trt'', example_entry ''b.trt'']"
    by (simp add: available_models_def get_or_def stale_manager_def)
  have c1: "is_compatible (example_config scenario_profile) 512 512 1 77 = Inr (True, 32)"
    by (simp add: is_compatible_def example_config_def scenario_profile_def item_gt_def
        item_lt_def getitem_def)
  have c2: "is_compatible (example_config scenario_profile) 512 512 3 77 = Inr (False, 0)"
    by (simp add: is_compatible_def example_config_def scenario_profile_def item_gt_def
        item_lt_def getitem_def)
  have c3: "is_compatible_from_dict (example_config scenario_profile) [(''sample'', [2, 4, 64, 64])]
              = Inr (True, 17)"
    by (simp add: is_compatible_from_dict_def example_config_def scenario_profile_def
        tensor_sub_def to_tensor_def)
  have e: "map_of (all_models empty_manager) (cc empty_manager) = None"
    by (simp add: empty_manager_def)
  have e': "map_of (available_models empty_manager) ''m'' = None"
    by (simp add: empty_manager_def available_models_def get_or_def)
  note A = lookup_result [where st = stale_manager and base = "''m''"
      and models = "[example_entry ''a.trt'', example_entry ''b.trt'']"
      and width = 512 and height = 512 and batch_size = 1 and max_embedding = 77
      and feed_dict = "[(''sample'', [2, 4, 64, 64])]"]
  note B = lookup_result [where st = stale_manager and base = "''m''"
      and models = "[example_entry ''a.trt'', example_entry ''b.trt'']"
      and width = 512 and height = 512 and batch_size = 3 and max_embedding = 77]
  note C = lookup_result [where st = empty_manager and base = "''m''"
      and width = 512 and height = 512 and batch_size = 1 and max_embedding = 77]
  have "get_valid_models stale_manager ''m'' 512 512 1 77
       = Inr ([example_entry ''a.trt'', example_entry ''b.trt''], [32, 32])"
    using A k c1 by (simp add: raises_def accepted_def distance_of_def example_entry_def)
  moreover have "get_valid_models stale_manager ''m'' 512 512 3 77 = Inr ([], [])"
    using B k c2 by (simp add: raises_def accepted_def distance_of_def example_entry_def)
  moreover have "get_valid_models_from_dict stale_manager ''m'' [(''sample'', [2, 4, 64, 64])]
       = Inr ([example_entry ''a.trt'', example_entry ''b.trt''], [17, 17])"
    using A k c3 by (simp add: raises_def accepted_def distance_of_def example_entry_def)
  moreover have "available_models empty_manager = []"
    using C e by blast
  moreover have "get_valid_models empty_manager ''m'' 512 512 1 77 = Inl KeyError"
    using C e' by blast
  ultimately show ?thesis using k by blast
qed

subsection \<open>File names in the registry\<close>

lemma list_all_update:
  "list_all P xs \<Longrightarrow> P (k, v) \<Longrightarrow> list_all P (AList.update k v xs)"
  by (induction xs) auto

lemma list_all_delete: "list_all P xs \<Longrightarrow> list_all P (AList.delete k xs)"
  by (induction xs) auto

lemma list_all_map_of: "list_all P xs \<Longrightarrow> map_of xs k = Some v \<Longrightarrow> P (k, v)"
  by (auto simp: list_all_iff dest: map_of_SomeD)

lemma update_member: "(k, v) \<in> set (AList.update k v xs)"
  by (induction xs) auto

lemma update_base_models_keeps:
  "list_all P rest \<Longrightarrow> list_all P d \<Longrightarrow> list_all P (snd (update_base_models trt_engines rest d))"
  by (induction rest arbitrary: d) (auto simp: Let_def list_all_update list_all_delete)

lemma update_ccs_keeps:
  "list_all (\<lambda>tb. list_all P (snd tb)) items \<Longrightarrow> list_all (\<lambda>tb. list_all P (snd tb)) reg
     \<Longrightarrow> list_all (\<lambda>tb. list_all P (snd tb)) (snd (update_ccs trt_engines items reg))"
proof (induction items arbitrary: reg)
  case Nil
  then show ?case by simp
next
  case (Cons x items)
  obtain tag base_models where x: "x = (tag, base_models)" by (cases x)
  obtain r d where u: "update_base_models trt_engines base_models base_models = (r, d)"
    by (cases "update_base_models trt_engines base_models base_models")
  have d: "list_all P d"
    using update_base_models_keeps [of P base_models base_models trt_engines] Cons.prems(1) x u
    by simp
  have reg': "list_all (\<lambda>tb. list_all P (snd tb)) (AList.update tag d reg)"
    using Cons.prems(2) d by (simp add: list_all_update)
  show ?case
  proof (cases r)
    case None
    then show ?thesis using x u Cons.IH [OF _ reg'] Cons.prems(1) by simp
  next
    case (Some e)
    then show ?thesis using x u reg' by simp
  qed
qed

lemma update_keeps_no_duplicates:
  "no_duplicate_files (all_models st) \<Longrightarrow> no_duplicate_files (all_models (snd (update listing st)))"
proof -
  assume inv: "no_duplicate_files (all_models st)"
  let ?eng = "filter (\<lambda>trt_file. endswith trt_file ''.trt'') listing"
  have "no_duplicate_files (snd (update_ccs ?eng (all_models st) (all_models st)))"
    using update_ccs_keeps [of "\<lambda>bm. distinct (map filepath (snd bm))" "all_models st" "all_models st" ?eng] inv
    by (simp add: no_duplicate_files_def)
  then show ?thesis
    by (cases "update_ccs ?eng (all_models st) (all_models st)")
      (auto simp: update_def write_json_def split: option.splits)
qed

lemma add_lora_entry_keeps_no_duplicates:
  "no_duplicate_files (all_models st) \<Longrightarrow>
   add_lora_entry st base lora_name trt_lora_path f bl ip v u = Inr st'
     \<Longrightarrow> no_duplicate_files (all_models st')"
proof -
  assume inv: "no_duplicate_files (all_models st)"
    and r: "add_lora_entry st base lora_name trt_lora_path f bl ip v u = Inr st'"
  from r obtain base_models where bm: "map_of (all_models st) (cc st) = Some base_models"
    by (auto simp: add_lora_entry_def Let_def split: option.splits)
  have "list_all (\<lambda>bm. distinct (map filepath (snd bm))) base_models"
    using list_all_map_of [OF inv [unfolded no_duplicate_files_def] bm] by simp
  then show ?thesis
    using r bm inv
    by (auto simp: add_lora_entry_def Let_def write_json_def no_duplicate_files_def
        intro!: list_all_update)
qed

lemma get_or_list_all:
  "list_all P xs \<Longrightarrow> map_of xs k = Some v \<Longrightarrow> P (k, get_or xs k dflt)"
  by (simp add: get_or_def list_all_map_of)

lemma add_entry_no_duplicates_iff:
  assumes inv: "no_duplicate_files (all_models st)"
    and r: "add_entry dir st model_name p ss f bl ip rf v u lr = Inr st'"
  shows "no_duplicate_files (all_models st')
     \<longleftrightarrow> model_name @ ''_'' @ cc st @ ''.trt''
           \<notin> set (map filepath (get_or (available_models st) model_name []))"
proof -
  let ?bms = "get_or (all_models st) (cc st) []"
  let ?models = "get_or ?bms model_name []"
  let ?fn = "model_name @ ''_'' @ cc st @ ''.trt''"
  let ?Q = "\<lambda>bm. distinct (map filepath (snd bm))"
  let ?new = "\<lparr>filepath = ?fn, base_model = None,
      config = \<lparr>profile = p, static_shapes = ss, fp32 = f, baseline_model = bl, inpaint = ip,
         refit = rf, lora = lr, vram = v, unet_hidden_dim = u\<rparr>\<rparr>"
  have st': "all_models st'
      = AList.update (cc st) (AList.update model_name (?models @ [?new]) ?bms) (all_models st)"
    using r by (auto simp: add_entry_def get_trt_path_def Let_def write_json_def split: sum.splits)
  have bms: "list_all ?Q ?bms"
    using inv by (cases "map_of (all_models st) (cc st)")
      (auto simp: get_or_def no_duplicate_files_def dest: list_all_map_of)
  have models: "distinct (map filepath ?models)"
    using bms by (cases "map_of ?bms model_name")
      (auto simp: get_or_def [of ?bms] dest: list_all_map_of)
  show ?thesis
  proof
    assume inv': "no_duplicate_files (all_models st')"
    have "(cc st, AList.update model_name (?models @ [?new]) ?bms) \<in> set (all_models st')"
      unfolding st' by (rule update_member)
    with inv' have "list_all ?Q (AList.update model_name (?models @ [?new]) ?bms)"
      by (auto simp: no_duplicate_files_def list_all_iff)
    moreover have "(model_name, ?models @ [?new]) \<in> set (AList.update model_name (?models @ [?new]) ?bms)"
      by (rule update_member)
    ultimately have "distinct (map filepath (?models @ [?new]))"
      by (auto simp: list_all_iff)
    then show "?fn \<notin> set (map filepath (get_or (available_models st) model_name []))"
      by (simp add: available_models_def)
  next
    assume "?fn \<notin> set (map filepath (get_or (available_models st) model_name []))"
    with models have "distinct (map filepath (?models @ [?new]))"
      by (simp add: available_models_def)
    with bms have "list_all ?Q (AList.update model_name (?models @ [?new]) ?bms)"
      by (simp add: list_all_update)
    with inv show "no_duplicate_files (all_models st')"
      unfolding st' no_duplicate_files_def by (simp add: list_all_update)
  qed
qed


lemmas add_eval =
  add_m_def add_entry_def get_trt_path_def profile_hash_check_def scenario_profile_def
  empty_manager_def returned_def get_or_def write_json_def available_models_def
  no_duplicate_files_def Let_def

lemma once_added_registry:
  "all_models once_added
     = [(''cc86'', [(''m'', [\<lparr>filepath = ''m_cc86.trt'', base_model = None,
                              config = example_config scenario_profile\<rparr>])])]
   \<and> cc once_added = ''cc86''"
  by (simp add: once_added_def add_eval example_config_def)

lemma twice_added_registry:
  "all_models twice_added
     = [(''cc86'', [(''m'', [\<lparr>filepath = ''m_cc86.trt'', base_model = None,
                              config = example_config scenario_profile\<rparr>,
                            \<lparr>filepath = ''m_cc86.trt'', base_model = None,
                              config = example_config scenario_profile\<rparr>])])]
   \<and> cc twice_added = ''cc86''"
  by (simp add: twice_added_def add_m_def add_entry_def get_trt_path_def profile_hash_check_def
      returned_def get_or_def write_json_def once_added_registry example_config_def
      scenario_profile_def Let_def)

text \<open>
  C9, as stated: no operation produces two entries with the same file name under one
  key. The file name is derived from the model name and the tag alone, and
  \<^verbatim>\<open>add_entry\<close> appends without looking at the list: the second call for the model
  \<^verbatim>\<open>m\<close> leaves two entries named \<^verbatim>\<open>m_cc86.trt\<close>.
\<close>

theorem add_entry_twice_duplicates:
  "add_m empty_manager = Inr once_added
   \<and> add_m once_added = Inr twice_added
   \<and> no_duplicate_files (all_models once_added)
   \<and> map filepath (get_or (available_models twice_added) ''m'' []) = [''m_cc86.trt'', ''m_cc86.trt'']
   \<and> \<not> no_duplicate_files (all_models twice_added)"
proof -
  have "add_m empty_manager = Inr once_added"
    by (simp add: once_added_def add_eval)
  moreover have "add_m once_added = Inr twice_added"
    by (simp add: twice_added_def add_m_def add_entry_def get_trt_path_def profile_hash_check_def
        returned_def scenario_profile_def Let_def)
  moreover have "no_duplicate_files (all_models once_added)"
    by (simp add: once_added_registry no_duplicate_files_def)
  moreover have "map filepath (get_or (available_models twice_added) ''m'' [])
                   = [''m_cc86.trt'', ''m_cc86.trt'']"
    by (simp add: twice_added_registry available_models_def get_or_def)
  moreover have "\<not> no_duplicate_files (all_models twice_added)"
    by (simp add: twice_added_registry no_duplicate_files_def)
  ultimately show ?thesis by blast
qed

text \<open>
  C9, amended. \<^verbatim>\<open>add_lora_entry\<close> and \<^verbatim>\<open>update\<close> preserve the invariant. \<^verbatim>\<open>add_entry\<close>
  preserves it exactly when no entry under the model's key already has the derived file
  name.
\<close>

theorem registry_file_names:
  "(no_duplicate_files (all_models st)
      \<and> add_lora_entry st base lora_name trt_lora_path f bl ip v u = Inr st'
      \<longrightarrow> no_duplicate_files (all_models st'))
   \<and> (no_duplicate_files (all_models st)
      \<longrightarrow> no_duplicate_files (all_models (snd (update listing st))))
   \<and> (no_duplicate_files (all_models st)
      \<and> add_entry dir st model_name p ss f2 bl2 ip2 rf v2 u2 lr = Inr st''
      \<longrightarrow> (no_duplicate_files (all_models st'')
            \<longleftrightarrow> model_name @ ''_'' @ cc st @ ''.trt''
                  \<notin> set (map filepath (get_or (available_models st) model_name []))))"
  using add_lora_entry_keeps_no_duplicates [of st base lora_name trt_lora_path f bl ip v u st']
    update_keeps_no_duplicates [of st listing]
    add_entry_no_duplicates_iff [of st dir model_name p ss f2 bl2 ip2 rf v2 u2 lr st'']
  by blast

theorem registry_file_names_witness:
  "no_duplicate_files (all_models empty_manager)
   \<and> no_duplicate_files (all_models once_added)
   \<and> \<not> no_duplicate_files (all_models twice_added)
   \<and> no_duplicate_files (all_models (snd (update [''m_cc86.trt''] once_added)))
   \<and> no_duplicate_files
        (all_models (returned (add_lora_entry once_added ''m'' ''style'' ''style.lora'' False
           ''SD15'' False 0 4) empty_manager))"
proof -
  have e: "no_duplicate_files (all_models empty_manager)"
    by (simp add: empty_manager_def no_duplicate_files_def)
  have a1: "add_entry ''Unet-trt'' empty_manager ''m'' scenario_profile False False ''SD15'' False
              False 0 4 False = Inr once_added"
    by (simp add: once_added_def add_eval)
  have f1: "''m'' @ ''_'' @ cc empty_manager @ ''.trt''
              \<notin> set (map filepath (get_or (available_models empty_manager) ''m'' []))"
    by (simp add: empty_manager_def available_models_def get_or_def)
  have o: "no_duplicate_files (all_models once_added)"
    using registry_file_names [where st = empty_manager and dir = "''Unet-trt''"
        and model_name = "''m''" and p = scenario_profile and ss = False and ?f2.0 = False
        and ?bl2.0 = "''SD15''" and ?ip2.0 = False and rf = False and ?v2.0 = 0 and ?u2.0 = 4
        and lr = False and st'' = once_added] e a1 f1
    by blast
  have a2: "add_entry ''Unet-trt'' once_added ''m'' scenario_profile False False ''SD15'' False
              False 0 4 False = Inr twice_added"
    by (simp add: twice_added_def add_m_def add_entry_def get_trt_path_def profile_hash_check_def
        returned_def scenario_profile_def Let_def)
  have f2: "''m'' @ ''_'' @ cc once_added @ ''.trt''
              \<in> set (map filepath (get_or (available_models once_added) ''m'' []))"
    by (simp add: once_added_registry available_models_def get_or_def)
  have t: "\<not> no_duplicate_files (all_models twice_added)"
    using registry_file_names [where st = once_added and dir = "''Unet-trt''"
        and model_name = "''m''" and p = scenario_profile and ss = False and ?f2.0 = False
        and ?bl2.0 = "''SD15''" and ?ip2.0 = False and rf = False and ?v2.0 = 0 and ?u2.0 = 4
        and lr = False and st'' = twice_added] o a2 f2
    by blast
  have u: "no_duplicate_files (all_models (snd (update [''m_cc86.trt''] once_added)))"
    using registry_file_names [where st = once_added and listing = "[''m_cc86.trt'']",
        THEN conjunct2, THEN conjunct1] o
    by simp
  have l: "add_lora_entry once_added ''m'' ''style'' ''style.lora'' False ''SD15'' False 0 4
             = Inr (returned (add_lora_entry once_added ''m'' ''style'' ''style.lora'' False
                 ''SD15'' False 0 4) empty_manager)"
    by (simp add: add_lora_entry_def once_added_registry returned_def)
  have "no_duplicate_files
        (all_models (returned (add_lora_entry once_added ''m'' ''style'' ''style.lora'' False
           ''SD15'' False 0 4) empty_manager))"
    using registry_file_names [where st = once_added and base = "''m''" and lora_name = "''style''"
        and trt_lora_path = "''style.lora''" and f = False and bl = "''SD15''" and ip = False
        and v = 0 and u = 4
        and st' = "returned (add_lora_entry once_added ''m'' ''style'' ''style.lora'' False
           ''SD15'' False 0 4) empty_manager"] o l
    by blast
  with e o t u show ?thesis by blast
qed

subsection \<open>Configs of adapter entries\<close>

lemma unpack3_Inr: "unpack3 t = Inr (a, b, c) \<longleftrightarrow> t = [a, b, c]"
  by (cases t rule: unpack3.cases) auto










subsection \<open>The matcher\<close>

text \<open>
  For a request of the profile's rank the tensor form is decided by the bounds alone:
  it is accepted when every input is in range, with the sum of \<open>code_distance\<close> as
  distance, and rejected at the first input out of range, with the distance of the
  inputs before it.
\<close>

lemma sum_list_map2_nth:
  "length xs = length ys \<Longrightarrow> sum_list (map2 f xs ys) = (\<Sum>i < length ys. f (xs ! i) (ys ! i))"
  by (simp add: sum_list_sum_nth atLeast0LessThan)







































end
